theory Spec2Isabelle
  imports Main
begin

section \<open>Errors\<close>

text \<open>
  The services signal failure by throwing. \<open>HttpError message status\<close> is the class of
  \<^verbatim>\<open>commissionListing.service.ts\<close> (the status defaults to 400), \<open>Error message\<close> is the
  plain JavaScript \<^verbatim>\<open>Error\<close> thrown by the proposal service. A function that may throw
  returns \<open>error + 'a\<close>, with \<open>Inl\<close> for the thrown value.

  The repository modules of the project are outside the sources verified here. Where one
  of their functions is modelled from the specification, it raises \<open>Classified c\<close>, an error
  known only by its class in the taxonomy of the specification.
\<close>

datatype errorClass =
  ValidationError | AuthorizationError | NotFoundError | StateError | ConfigurationError

datatype error =
  HttpError string nat
  | Error string
  | Classified errorClass

section \<open>Numbers\<close>

text \<open>
  Prices, identifiers and percentages are JavaScript numbers, that is IEEE doubles. The
  model covers the numbers that are integers: an \<open>int\<close> stands for the double of that
  value. A sum is rounded to the nearest double, ties to the even significand: it is exact
  up to \<open>2^53 = 9007199254740992\<close> in absolute value, and beyond that a multiple of the
  unit in the last of its 53 significant bits. Numbers with a fraction, \<^verbatim>\<open>NaN\<close>, and the
  overflow to \<^verbatim>\<open>Infinity\<close> (from \<open>2^1024\<close> on) are outside the model.
\<close>

fun bitLength :: "nat \<Rightarrow> nat" where
  "bitLength n = (if n = 0 then 0 else Suc (bitLength (n div 2)))"

declare bitLength.simps [simp del]

definition roundToDouble :: "int \<Rightarrow> int" where
  "roundToDouble n =
     (if \<bar>n\<bar> \<le> 9007199254740992 then n
      else
        (let a = nat \<bar>n\<bar>;
             ulp = 2 ^ (bitLength a - 53);
             q = a div ulp;
             r = a mod ulp;
             m = (if ulp < 2 * r \<or> (2 * r = ulp \<and> odd q) then q + 1 else q) * ulp
         in sgn n * int m))"

text \<open>The \<^verbatim>\<open>+\<close> of two numbers.\<close>

definition jsAdd :: "int \<Rightarrow> int \<Rightarrow> int" where
  "jsAdd a b = roundToDouble (a + b)"

type_synonym ID = int

section \<open>Dates and strings\<close>

text \<open>
  A \<^verbatim>\<open>Date\<close> is its time value, the milliseconds since the epoch, or is invalid (its
  time value is \<^verbatim>\<open>NaN\<close>), as \<^verbatim>\<open>new Date("soon")\<close> is. The comparisons \<^verbatim>\<open><\<close> and \<^verbatim>\<open>>=\<close>
  of two dates compare the time values, and are false when one of them is invalid.
\<close>

datatype date = Date int | InvalidDate

fun dateLess :: "date \<Rightarrow> date \<Rightarrow> bool" where
  "dateLess (Date a) (Date b) = (a < b)"
| "dateLess _ _ = False"


text \<open>
  A string whose content matters beyond ASCII (the description of a proposal, which is
  trimmed) is the list of its UTF-16 code units. All other strings are identifiers,
  messages and keys, and are HOL strings.
\<close>

type_synonym jsString = "nat list"

section \<open>The listing service: data\<close>

text \<open>
  Every component of a listing may or may not carry an \<^verbatim>\<open>id\<close> yet
  (\<^verbatim>\<open>{ id?: ID }\<close>); \<open>None\<close> is a missing (undefined or null) id. The other records
  extend \<open>hasId\<close>, so that \<open>generateIds\<close> applies to all of them.
\<close>

record hasId =
  id' :: "ID option"

record milestone = hasId +
  percent :: int

text \<open>Selections and addons are both \<^verbatim>\<open>{ id, label, price }\<close>.\<close>

record priced = hasId +
  label :: string
  price :: int

record optionGroup = hasId +
  selections :: "priced list"

text \<open>
  A question arrives in several shapes. \<open>QString s\<close> is a plain string. \<open>QObject\<close> is
  an object, given by which of the keys \<^verbatim>\<open>id\<close>, \<^verbatim>\<open>title\<close>, \<^verbatim>\<open>label\<close> and \<^verbatim>\<open>text\<close> it
  has (\<open>None\<close>: the key is absent); the canonical form \<^verbatim>\<open>{id, text}\<close> is
  \<open>QObject (Some i) None None (Some t)\<close>. \<open>QOther s\<close> is any other value (a number, a
  boolean, null, an array), given by its string form \<^verbatim>\<open>String(q)\<close>.
\<close>

datatype question =
  QString string
  | QObject "ID option" "string option" "string option" "string option"
  | QOther string

record generalOptions =
  optionGroups :: "optionGroup list option"
  addons :: "priced list option"
  questions :: "question list option"

record subject = hasId +
  subject_optionGroups :: "optionGroup list option"
  subject_addons :: "priced list option"
  subject_questions :: "question list option"

record revisionPolicy =
  revisionType :: string

text \<open>
  The fields of \<^verbatim>\<open>Partial<CommissionListingPayload>\<close> that the modelled functions read
  or write. Every field is optional: \<open>None\<close> is an absent (undefined or null) field.
  For the fields that validation only tests for presence, the content is kept simple.
\<close>

record payload =
  title :: "string option"
  type' :: "string option"
  flow :: "string option"
  artistId :: "string option"
  thumbnailIdx :: "int option"
  samples :: "string list option"
  deadline :: "string option"
  basePrice :: "int option"
  cancelationFee :: "int option"
  slots :: "int option"
  revisions :: "revisionPolicy option"
  milestones :: "milestone list option"
  generalOptions :: "generalOptions option"
  subjectOptions :: "subject list option"

section \<open>The listing service: functions\<close>

text \<open>
  \<^verbatim>\<open>items.map((item, index) => ({ ...item, id: item.id ?? startId + index }))\<close>. The
  sum of the start id 1 and an array index is far below \<open>2^53\<close> and so exact.
\<close>

definition generateIds :: "'a hasId_scheme list \<Rightarrow> ID \<Rightarrow> 'a hasId_scheme list" where
  "generateIds items startId =
     map (\<lambda>(index, item).
            item\<lparr>id' := Some (case id' item of Some i \<Rightarrow> i | None \<Rightarrow> startId + int index)\<rparr>)
         (enumerate 0 items)"

text \<open>
  The callback that \<open>processPayloadWithIds\<close> maps over a questions array (the source
  writes it out twice, for the general and for the subject questions). An object that has
  neither a \<^verbatim>\<open>title\<close> nor a \<^verbatim>\<open>label\<close> key falls through to the last line, where
  \<^verbatim>\<open>String(q)\<close> of an object is \<^verbatim>\<open>[object Object]\<close>.
\<close>

fun questionToIdFormat :: "question \<Rightarrow> nat \<Rightarrow> question" where
  "questionToIdFormat (QString q) idx = QObject (Some (int idx + 1)) None None (Some q)"
| "questionToIdFormat (QObject i (Some t) l x) idx = QObject (Some (int idx + 1)) None None (Some t)"
| "questionToIdFormat (QObject i None (Some l) x) idx =
     QObject (Some (case i of Some j \<Rightarrow> j | None \<Rightarrow> int idx + 1)) None None (Some l)"
| "questionToIdFormat (QObject i None None x) idx =
     QObject (Some (int idx + 1)) None None (Some ''[object Object]'')"
| "questionToIdFormat (QOther s) idx = QObject (Some (int idx + 1)) None None (Some s)"

definition mapQuestions :: "question list \<Rightarrow> question list" where
  "mapQuestions questionsArr = map (\<lambda>(idx, q). questionToIdFormat q idx) (enumerate 0 questionsArr)"

text \<open>
  \<^verbatim>\<open>generateIds(optionGroups).map((group) => ({ ...group, selections:
  generateIds(group.selections) }))\<close>, which the source writes out for the general and for
  the subject option groups.
\<close>

definition processGroups :: "optionGroup list \<Rightarrow> optionGroup list" where
  "processGroups groups =
     map (\<lambda>group. group\<lparr>selections := generateIds (selections group) 1\<rparr>) (generateIds groups 1)"

definition processPayloadWithIds :: "payload \<Rightarrow> payload" where
  "processPayloadWithIds payload =
     (let processed = payload;
          processed = (case milestones processed of
             None \<Rightarrow> processed
           | Some ms \<Rightarrow> processed\<lparr>milestones := Some (generateIds ms 1)\<rparr>);
          processed = (case generalOptions processed of
             None \<Rightarrow> processed
           | Some general \<Rightarrow>
               let general = (case optionGroups general of
                      None \<Rightarrow> general
                    | Some gs \<Rightarrow> general\<lparr>optionGroups := Some (processGroups gs)\<rparr>);
                   general = (case addons general of
                      None \<Rightarrow> general
                    | Some as \<Rightarrow> general\<lparr>addons := Some (generateIds as 1)\<rparr>);
                   general = (case questions general of
                      None \<Rightarrow> general
                    | Some qs \<Rightarrow> general\<lparr>questions := Some (mapQuestions qs)\<rparr>)
               in processed\<lparr>generalOptions := Some general\<rparr>);
          processed = (case subjectOptions processed of
             None \<Rightarrow> processed
           | Some subjects \<Rightarrow>
               processed\<lparr>subjectOptions := Some (map
                 (\<lambda>subject.
                    let processedSubject = subject;
                        processedSubject = (case subject_optionGroups processedSubject of
                           None \<Rightarrow> processedSubject
                         | Some gs \<Rightarrow>
                             processedSubject\<lparr>subject_optionGroups := Some (processGroups gs)\<rparr>);
                        processedSubject = (case subject_addons processedSubject of
                           None \<Rightarrow> processedSubject
                         | Some as \<Rightarrow>
                             processedSubject\<lparr>subject_addons := Some (generateIds as 1)\<rparr>);
                        processedSubject = (case subject_questions processedSubject of
                           None \<Rightarrow> processedSubject
                         | Some qs \<Rightarrow>
                             processedSubject\<lparr>subject_questions := Some (mapQuestions qs)\<rparr>)
                    in processedSubject)
                 (generateIds subjects 1))\<rparr>)
      in processed)"

text \<open>
  The local function \<^verbatim>\<open>addPrices\<close> of \<open>computePriceRange\<close>, with the two running
  totals \<open>(min, max)\<close> it updates passed in and returned. It returns at once on an absent
  or empty list, so \<^verbatim>\<open>Math.min(...prices)\<close> only ever sees a non-empty list. Every
  \<^verbatim>\<open>+\<close> and \<^verbatim>\<open>+=\<close> is the rounded sum \<open>jsAdd\<close>; the minimum needs no rounding.
\<close>

fun addPrices :: "'a priced_scheme list option \<Rightarrow> int \<times> int \<Rightarrow> int \<times> int" where
  "addPrices None (mn, mx) = (mn, mx)"
| "addPrices (Some []) (mn, mx) = (mn, mx)"
| "addPrices (Some (item # items)) (mn, mx) =
     (let prices = map price (item # items)
      in (jsAdd mn (fold min (tl prices) (hd prices)),
          jsAdd mx (fold (\<lambda>price sum. jsAdd sum price) prices 0)))"

definition computePriceRange :: "payload \<Rightarrow> int \<times> int" where
  "computePriceRange input =
     (let base = (case basePrice input of Some b \<Rightarrow> b | None \<Rightarrow> 0);
          range = (base, base);
          range = (case generalOptions input of
             None \<Rightarrow> range
           | Some general \<Rightarrow> (case optionGroups general of
                None \<Rightarrow> range
              | Some gs \<Rightarrow> fold (\<lambda>group. addPrices (Some (selections group))) gs range));
          range = addPrices (case generalOptions input of
             None \<Rightarrow> None
           | Some general \<Rightarrow> addons general) range;
          range = (case subjectOptions input of
             None \<Rightarrow> range
           | Some subjects \<Rightarrow>
               fold (\<lambda>subject r.
                      addPrices (subject_addons subject)
                        (case subject_optionGroups subject of
                           None \<Rightarrow> r
                         | Some gs \<Rightarrow> fold (\<lambda>group. addPrices (Some (selections group))) gs r))
                    subjects range)
      in range)"

definition requiredFields :: "string list" where
  "requiredFields =
     [''title'', ''type'', ''flow'', ''artistId'', ''thumbnailIdx'', ''samples'',
      ''deadline'', ''basePrice'', ''cancelationFee'']"

text \<open>\<^verbatim>\<open>payload[field] === undefined || payload[field] === null\<close>\<close>

definition fieldMissing :: "payload \<Rightarrow> string \<Rightarrow> bool" where
  "fieldMissing p field =
     (if field = ''title'' then title p = None
      else if field = ''type'' then type' p = None
      else if field = ''flow'' then flow p = None
      else if field = ''artistId'' then artistId p = None
      else if field = ''thumbnailIdx'' then thumbnailIdx p = None
      else if field = ''samples'' then samples p = None
      else if field = ''deadline'' then deadline p = None
      else if field = ''basePrice'' then basePrice p = None
      else if field = ''cancelationFee'' then cancelationFee p = None
      else True)"

definition milestoneSum :: "milestone list \<Rightarrow> int" where
  "milestoneSum ms = fold (\<lambda>milestone acc. jsAdd acc (percent milestone)) ms 0"

definition validateListingPayload :: "payload \<Rightarrow> error + unit" where
  "validateListingPayload p =
     (case find (fieldMissing p) requiredFields of
        Some field \<Rightarrow> Inl (HttpError (''Required field missing: '' @ field) 400)
      | None \<Rightarrow>
          if flow p = Some ''milestone'' \<and> (milestones p = None \<or> milestones p = Some [])
          then Inl (HttpError ''Milestone flow requires milestones array'' 400)
          else if (case milestones p of
                     None \<Rightarrow> False
                   | Some ms \<Rightarrow> 0 < length ms \<and> milestoneSum ms \<noteq> 100)
          then Inl (HttpError ''Milestone percentages must sum to 100%'' 400)
          else if flow p = Some ''standard'' \<and>
                  (case revisions p of None \<Rightarrow> False | Some r \<Rightarrow> revisionType r = ''milestone'')
          then Inl (HttpError ''Standard flow cannot have milestone revision type'' 400)
          else if slots p = Some 0
          then Inl (HttpError ''Slots cannot be 0'' 400)
          else Inr ())"

section \<open>The proposal service: data\<close>

text \<open>
  What the proposal service reads of a listing (\<^verbatim>\<open>ICommissionListing\<close>) and of a stored
  proposal (\<^verbatim>\<open>IProposal\<close>). A status is the string the source compares it with.
\<close>

record deadlinePolicy =
  mode :: string

record listing =
  listing_artistId :: string
  isActive :: bool
  isDeleted :: bool
  listing_deadline :: deadlinePolicy

record proposal =
  clientId :: string
  proposal_artistId :: string
  listingId :: string
  status :: string

record serviceOptionSelection =
  selection_id :: int
  groupId :: int
  selectedSelectionID :: int
  selectedSelectionLabel :: string
  selection_price :: int

record serviceAddon =
  addon_id :: int
  addonId :: int
  addon_price :: int

record serviceAnswer =
  answer_id :: int
  questionId :: int
  answer :: string

text \<open>
  \<^verbatim>\<open>ServiceGeneralOptionsInput\<close>; the repository's \<^verbatim>\<open>ProposalGeneralOptionsInput\<close>
  has the same three optional arrays and is the same record here.
\<close>

record generalOptionsInput =
  input_optionGroups :: "serviceOptionSelection list option"
  input_addons :: "serviceAddon list option"
  input_answers :: "serviceAnswer list option"

text \<open>
  A subject with its instances; an instance (\<^verbatim>\<open>ServiceSubjectInstance\<close>) is its id with
  its three optional arrays.
\<close>

record serviceSubjectOption =
  subjectId :: int
  instances :: "(int \<times> generalOptionsInput) list"

record serviceSubjectOptionsInput =
  subjects :: "serviceSubjectOption list option"

record artistDecision =
  acceptProposal :: bool
  surcharge :: "int option"
  discount :: "int option"
  rejectionReason :: "string option"

record clientDecision =
  cancel :: "bool option"
  acceptAdjustments :: "bool option"

record artistAdjustment =
  proposedSurcharge :: "int option"
  proposedDiscount :: "int option"
  proposedDate :: date


record updateProposalInput =
  update_earliestDate :: date
  update_latestDate :: date
  update_baseDate :: date
  update_deadline :: "date option"
  update_generalDescription :: "jsString option"
  update_generalOptions :: "generalOptionsInput option"
  update_subjectOptions :: "serviceSubjectOption list option"
  update_referenceImages :: "string list option"

text \<open>
  The form a request carries. The \<^verbatim>\<open>payload\<close> entry is absent (or not a string), or a
  string that \<^verbatim>\<open>JSON.parse\<close> rejects, or one it parses. A text entry is \<open>None\<close> when the
  form has no such string entry. The \<^verbatim>\<open>deadline\<close> entry is given by the date that
  \<^verbatim>\<open>new Date(...)\<close> reads from it, which is invalid when the text is not a date. A blob is
  given by its content.
\<close>

datatype 'a parsed = Absent | Invalid | Parsed 'a

record jsonPayload =
  json_generalOptions :: "generalOptionsInput option"
  json_subjectOptions :: "serviceSubjectOptionsInput option"

type_synonym blob = string

record formData =
  form_payload :: "jsonPayload parsed"
  form_listingId :: "string option"
  form_deadline :: "date option"
  form_generalDescription :: "jsString option"
  form_referenceImages :: "blob list"
  form_existingReferences :: "string list"

text \<open>
  The functions that the proposal service imports from the repositories and from the upload
  utility are outside the sources verified here. Each service function below takes the ones it
  calls as its first arguments, under their names in the source. \<open>'db\<close> is the state of
  what the service persists to, the document database and the object storage behind the
  upload: a read is a function of it, a write (the upload is one) returns the new state
  with its result.
\<close>

type_synonym 'db getProposalById_fn = "'db \<Rightarrow> string \<Rightarrow> proposal option"
type_synonym 'db findCommissionListingById_fn = "'db \<Rightarrow> string \<Rightarrow> listing option"
type_synonym 'db getLatestActiveContractDeadline_fn = "'db \<Rightarrow> string \<Rightarrow> date option"
type_synonym computeDynamicEstimate_fn = "listing \<Rightarrow> date \<Rightarrow> error + date \<times> date"
type_synonym 'db uploadGalleryImagesToR2_fn =
  "'db \<Rightarrow> blob list \<Rightarrow> string \<Rightarrow> string \<Rightarrow> (error + string list) \<times> 'db"
type_synonym 'db updateProposal_fn =
  "'db \<Rightarrow> string \<Rightarrow> updateProposalInput \<Rightarrow> (error + proposal option) \<times> 'db"
type_synonym 'db artistResponds_fn =
  "'db \<Rightarrow> string \<Rightarrow> bool \<Rightarrow> artistAdjustment option \<Rightarrow> string option \<Rightarrow> (error + proposal) \<times> 'db"
type_synonym 'db clientRespondsToAdjustment_fn =
  "'db \<Rightarrow> string \<Rightarrow> bool option \<Rightarrow> bool \<Rightarrow> (error + proposal) \<times> 'db"
type_synonym 'db cancelProposal_fn = "'db \<Rightarrow> string \<Rightarrow> string \<Rightarrow> (error + proposal) \<times> 'db"
type_synonym 'db finalizeAcceptance_fn = "'db \<Rightarrow> string \<Rightarrow> (error + proposal) \<times> 'db"

section \<open>The proposal service: helpers\<close>

definition convertGeneralOptions :: "generalOptionsInput option \<Rightarrow> generalOptionsInput option" where
  "convertGeneralOptions options =
     (case options of
        None \<Rightarrow> None
      | Some opts \<Rightarrow>
          Some \<lparr>input_optionGroups = input_optionGroups opts,
                input_addons = input_addons opts,
                input_answers = input_answers opts\<rparr>)"

definition convertSubjectOptions ::
  "serviceSubjectOptionsInput option \<Rightarrow> serviceSubjectOption list option" where
  "convertSubjectOptions options =
     (case options of None \<Rightarrow> None | Some opts \<Rightarrow> subjects opts)"

text \<open>
  \<^verbatim>\<open>earliestDate.toISOString().split("T")[0]\<close>: the calendar date (UTC) of a time value,
  as \<^verbatim>\<open>YYYY-MM-DD\<close>, with a sign and six digits for a year outside 0 .. 9999. On an
  invalid date \<^verbatim>\<open>toISOString\<close> throws a \<^verbatim>\<open>RangeError\<close>, an \<^verbatim>\<open>Error\<close> with the message
  \<^verbatim>\<open>Invalid time value\<close>.
\<close>

fun padDigits :: "nat \<Rightarrow> nat \<Rightarrow> string" where
  "padDigits 0 n = []"
| "padDigits (Suc k) n = padDigits k (n div 10) @ [''0123456789'' ! (n mod 10)]"

definition civilFromDays :: "int \<Rightarrow> int \<times> int \<times> int" where
  "civilFromDays z =
     (let z = z + 719468;
          era = z div 146097;
          doe = z - era * 146097;
          yoe = (doe - doe div 1460 + doe div 36524 - doe div 146096) div 365;
          doy = doe - (365 * yoe + yoe div 4 - yoe div 100);
          mp = (5 * doy + 2) div 153;
          d = doy - (153 * mp + 2) div 5 + 1;
          m = (if mp < 10 then mp + 3 else mp - 9);
          y = yoe + era * 400 + (if m \<le> 2 then 1 else 0)
      in (y, m, d))"

definition isoDateOfTime :: "int \<Rightarrow> string" where
  "isoDateOfTime t =
     (case civilFromDays (t div 86400000) of
        (y, m, d) \<Rightarrow>
          (if 0 \<le> y \<and> y \<le> 9999 then padDigits 4 (nat y)
           else (if y < 0 then ''-'' else ''+'') @ padDigits 6 (nat \<bar>y\<bar>))
          @ ''-'' @ padDigits 2 (nat m) @ ''-'' @ padDigits 2 (nat d))"

fun toISODate :: "date \<Rightarrow> error + string" where
  "toISODate (Date t) = Inr (isoDateOfTime t)"
| "toISODate InvalidDate = Inl (Error ''Invalid time value'')"

definition validateDeadline :: "listing \<Rightarrow> date \<Rightarrow> date \<Rightarrow> date \<Rightarrow> error + unit" where
  "validateDeadline l dl earliest latest =
     (if mode (listing_deadline l) = ''standard'' then Inr ()
      else if mode (listing_deadline l) = ''withDeadline'' then
        (if dateLess dl earliest
         then (case toISODate earliest of
                 Inl e \<Rightarrow> Inl e
               | Inr day \<Rightarrow> Inl (HttpError (''Deadline cannot be earlier than '' @ day) 400))
         else Inr ())
      else if mode (listing_deadline l) = ''withRush'' then Inr ()
      else Inl (HttpError ''Invalid deadline mode in listing'' 500))"




section \<open>The proposal service: operations\<close>


definition updateProposalFromForm ::
  "'db getProposalById_fn \<Rightarrow> 'db findCommissionListingById_fn \<Rightarrow>
   'db getLatestActiveContractDeadline_fn \<Rightarrow> computeDynamicEstimate_fn \<Rightarrow>
   'db uploadGalleryImagesToR2_fn \<Rightarrow> 'db updateProposal_fn \<Rightarrow>
   date \<Rightarrow> 'db \<Rightarrow> string \<Rightarrow> string \<Rightarrow> formData \<Rightarrow> (error + proposal) \<times> 'db" where
  "updateProposalFromForm getProposalById findCommissionListingById
       getLatestActiveContractDeadline repoComputeDynamicEstimate uploadGalleryImagesToR2
       repoUpdateProposal now db proposalId userId form =
     (case getProposalById db proposalId of
        None \<Rightarrow> (Inl (HttpError ''Proposal not found'' 404), db)
      | Some existing \<Rightarrow>
     (if clientId existing \<noteq> userId
      then (Inl (HttpError ''Not authorized to edit this proposal'' 403), db)
      else if status existing \<noteq> ''pendingArtist''
      then (Inl (HttpError ''Can only edit proposals in pendingArtist status'' 400), db)
      else if form_payload form = Invalid
      then (Inl (HttpError ''Invalid JSON payload'' 400), db)
      else
     (let json = (case form_payload form of
                    Parsed j \<Rightarrow> j
                  | _ \<Rightarrow> \<lparr>json_generalOptions = None, json_subjectOptions = None\<rparr>)
      in
     (case findCommissionListingById db (listingId existing) of
        None \<Rightarrow> (Inl (HttpError ''Associated listing not found'' 404), db)
      | Some l \<Rightarrow>
     (let base = (case getLatestActiveContractDeadline db (listing_artistId l) of
                    Some d \<Rightarrow> d
                  | None \<Rightarrow> now)
      in
     (case repoComputeDynamicEstimate l base of
        Inl e \<Rightarrow> (Inl e, db)
      | Inr (earliest, latest) \<Rightarrow>
     (case (case form_deadline form of
              None \<Rightarrow> Inr ()
            | Some dl \<Rightarrow> validateDeadline l dl earliest latest) of
        Inl e \<Rightarrow> (Inl e, db)
      | Inr u \<Rightarrow>
     (let existingReferences = form_existingReferences form;
          referenceBlobs = form_referenceImages form
      in
     (case (if 0 < length existingReferences \<or> 0 < length referenceBlobs
            then (case (if 0 < length referenceBlobs
                        then uploadGalleryImagesToR2 db referenceBlobs userId ''proposal''
                        else (Inr [], db)) of
                    (Inl e, db') \<Rightarrow> (Inl e, db')
                  | (Inr uploadedUrls, db') \<Rightarrow>
                      (Inr (Some (existingReferences @ uploadedUrls)), db'))
            else (Inr None, db)) of
        (Inl e, db') \<Rightarrow> (Inl e, db')
      | (Inr images, db') \<Rightarrow>
     (let updates =
            \<lparr>update_earliestDate = earliest,
             update_latestDate = latest,
             update_baseDate = base,
             update_deadline = form_deadline form,
             update_generalDescription =
               (if form_generalDescription form = Some [] then None
                else form_generalDescription form),
             update_generalOptions =
               (case json_generalOptions json of
                  None \<Rightarrow> None
                | Some g \<Rightarrow> convertGeneralOptions (Some g)),
             update_subjectOptions =
               (case json_subjectOptions json of
                  None \<Rightarrow> None
                | Some s \<Rightarrow> convertSubjectOptions (Some s)),
             update_referenceImages = images\<rparr>
      in
     (case repoUpdateProposal db' proposalId updates of
        (Inl e, db'') \<Rightarrow> (Inl e, db'')
      | (Inr None, db'') \<Rightarrow> (Inl (HttpError ''Failed to update proposal'' 500), db'')
      | (Inr (Some updatedProposal), db'') \<Rightarrow> (Inr updatedProposal, db''))))))))))))"

text \<open>
  \<^verbatim>\<open>!decision.rejectionReason\<close> holds for an absent and for an empty reason;
  \<^verbatim>\<open>decision.surcharge || decision.discount\<close> holds when one of them is a number other
  than zero.
\<close>

definition artistRespond ::
  "'db getProposalById_fn \<Rightarrow> 'db artistResponds_fn \<Rightarrow>
   date \<Rightarrow> 'db \<Rightarrow> string \<Rightarrow> string \<Rightarrow> artistDecision \<Rightarrow> (error + proposal) \<times> 'db" where
  "artistRespond getProposalById artistResponds now db artist proposalId decision =
     (case getProposalById db proposalId of
        None \<Rightarrow> (Inl (Error ''Proposal not found''), db)
      | Some p \<Rightarrow>
          if proposal_artistId p \<noteq> artist
          then (Inl (Error ''Not authorized to respond to this proposal''), db)
          else if \<not> acceptProposal decision then
            (if rejectionReason decision = None \<or> rejectionReason decision = Some []
             then (Inl (Error ''Rejection reason is required''), db)
             else artistResponds db proposalId False None (rejectionReason decision))
          else if status p = ''pendingArtist'' \<or> status p = ''rejectedClient'' then
            artistResponds db proposalId True
              (if (surcharge decision \<noteq> None \<and> surcharge decision \<noteq> Some 0) \<or>
                  (discount decision \<noteq> None \<and> discount decision \<noteq> Some 0)
               then Some \<lparr>proposedSurcharge = surcharge decision,
                          proposedDiscount = discount decision,
                          proposedDate = now\<rparr>
               else None)
              None
          else (Inl (Error ''Proposal is not awaiting artist response''), db))"

definition clientRespond ::
  "'db getProposalById_fn \<Rightarrow> 'db cancelProposal_fn \<Rightarrow> 'db clientRespondsToAdjustment_fn \<Rightarrow>
   'db \<Rightarrow> string \<Rightarrow> string \<Rightarrow> clientDecision \<Rightarrow> (error + proposal) \<times> 'db" where
  "clientRespond getProposalById cancelProposal clientRespondsToAdjustment
       db client proposalId decision =
     (case getProposalById db proposalId of
        None \<Rightarrow> (Inl (Error ''Proposal not found''), db)
      | Some p \<Rightarrow>
          if clientId p \<noteq> client
          then (Inl (Error ''Not authorized to respond to this proposal''), db)
          else if cancel decision = Some True
          then cancelProposal db proposalId client
          else if status p \<noteq> ''pendingClient''
          then (Inl (Error ''Proposal is not awaiting client response''), db)
          else clientRespondsToAdjustment db proposalId (acceptAdjustments decision) False)"

definition finalizeProposal ::
  "'db getProposalById_fn \<Rightarrow> 'db finalizeAcceptance_fn \<Rightarrow>
   'db \<Rightarrow> string \<Rightarrow> (error + proposal) \<times> 'db" where
  "finalizeProposal getProposalById finalizeAcceptance db proposalId =
     (case getProposalById db proposalId of
        None \<Rightarrow> (Inl (Error ''Proposal not found''), db)
      | Some p \<Rightarrow>
          if status p \<noteq> ''accepted''
          then (Inl (Error ''Proposal must be in accepted status to finalize''), db)
          else finalizeAcceptance db proposalId)"

section \<open>The proposal repository, from the specification\<close>

text \<open>
  The proposals of the database, by their id.
\<close>

type_synonym proposalStore = "string \<rightharpoonup> proposal"

text \<open>
  Modelled from the spec: \<^verbatim>\<open>getProposalById\<close> of \<^verbatim>\<open>proposal.repository\<close>, which is not
  among the sources. It is the read of a Proposal record by its id (section 6).
\<close>

definition repo_getProposalById :: "proposalStore getProposalById_fn" where
  "repo_getProposalById db proposalId = db proposalId"

text \<open>
  The terminal states of section 4.4.
\<close>

definition terminalStatuses :: "string list" where
  "terminalStatuses = [''finalized'', ''cancelled'', ''rejectedArtist'', ''expired'']"

text \<open>
  Modelled from the spec: \<^verbatim>\<open>cancelProposal\<close> of \<^verbatim>\<open>proposal.repository\<close>, which is not
  among the sources. Section 4.4: cancelling is client-initiated, legal from any
  non-terminal state, and moves the proposal to \<^verbatim>\<open>cancelled\<close>; an action from an illegal
  status is a StateError, a foreign actor an AuthorizationError, an id that does not resolve
  a NotFoundError (section 7).
\<close>

definition repo_cancelProposal :: "proposalStore cancelProposal_fn" where
  "repo_cancelProposal db proposalId client =
     (case db proposalId of
        None \<Rightarrow> (Inl (Classified NotFoundError), db)
      | Some p \<Rightarrow>
          if clientId p \<noteq> client then (Inl (Classified AuthorizationError), db)
          else if status p \<in> set terminalStatuses then (Inl (Classified StateError), db)
          else (Inr (p\<lparr>status := ''cancelled''\<rparr>),
                db(proposalId \<mapsto> p\<lparr>status := ''cancelled''\<rparr>)))"

text \<open>
  Modelled from the spec: \<^verbatim>\<open>finalizeAcceptance\<close> of \<^verbatim>\<open>proposal.repository\<close>, which is
  not among the sources. Section 4.4: finalizing is legal from \<^verbatim>\<open>accepted\<close> only and
  marks the proposal \<^verbatim>\<open>finalized\<close> (the contract it produces is external).
\<close>

definition repo_finalizeAcceptance :: "proposalStore finalizeAcceptance_fn" where
  "repo_finalizeAcceptance db proposalId =
     (case db proposalId of
        None \<Rightarrow> (Inl (Classified NotFoundError), db)
      | Some p \<Rightarrow>
          if status p \<noteq> ''accepted'' then (Inl (Classified StateError), db)
          else (Inr (p\<lparr>status := ''finalized''\<rparr>),
                db(proposalId \<mapsto> p\<lparr>status := ''finalized''\<rparr>)))"

section \<open>Notions used in the statements\<close>

text \<open>An optional array read as a list: an absent one has no elements.\<close>

definition listOf :: "'a list option \<Rightarrow> 'a list" where
  "listOf xs = (case xs of None \<Rightarrow> [] | Some ys \<Rightarrow> ys)"

text \<open>
  The cheapest price of a list of selections or addons (nothing for an empty list), the
  exact sum of its prices, and the sum of their absolute values.
\<close>

definition cheapest :: "'a priced_scheme list \<Rightarrow> int" where
  "cheapest items = (if items = [] then 0 else Min (set (map price items)))"

definition total :: "'a priced_scheme list \<Rightarrow> int" where
  "total items = sum_list (map price items)"

definition absTotal :: "'a priced_scheme list \<Rightarrow> int" where
  "absTotal items = (\<Sum>x\<leftarrow>items. \<bar>price x\<bar>)"

definition generalGroups :: "payload \<Rightarrow> optionGroup list" where
  "generalGroups input =
     (case generalOptions input of None \<Rightarrow> [] | Some g \<Rightarrow> listOf (optionGroups g))"

definition generalAddons :: "payload \<Rightarrow> priced list" where
  "generalAddons input =
     (case generalOptions input of None \<Rightarrow> [] | Some g \<Rightarrow> listOf (addons g))"

definition subjectCheapest :: "subject \<Rightarrow> int" where
  "subjectCheapest s =
     (\<Sum>g\<leftarrow>listOf (subject_optionGroups s). cheapest (selections g))
       + cheapest (listOf (subject_addons s))"

definition subjectTotal :: "subject \<Rightarrow> int" where
  "subjectTotal s =
     (\<Sum>g\<leftarrow>listOf (subject_optionGroups s). total (selections g))
       + total (listOf (subject_addons s))"

definition subjectMagnitude :: "subject \<Rightarrow> int" where
  "subjectMagnitude s =
     (\<Sum>g\<leftarrow>listOf (subject_optionGroups s). absTotal (selections g))
       + absTotal (listOf (subject_addons s))"

text \<open>
  The magnitude of a payload is the sum of the absolute values of its base price and of all
  its selection and addon prices. While it is at most \<open>2^53\<close>, no sum that
  \<open>computePriceRange\<close> forms is rounded. The same holds of the percentages of a list of
  milestones.
\<close>

definition priceMagnitude :: "payload \<Rightarrow> int" where
  "priceMagnitude input =
     \<bar>case basePrice input of Some b \<Rightarrow> b | None \<Rightarrow> 0\<bar>
       + (\<Sum>g\<leftarrow>generalGroups input. absTotal (selections g))
       + absTotal (generalAddons input)
       + (\<Sum>s\<leftarrow>listOf (subjectOptions input). subjectMagnitude s)"

definition milestoneMagnitude :: "milestone list \<Rightarrow> int" where
  "milestoneMagnitude ms = (\<Sum>m\<leftarrow>ms. \<bar>percent m\<bar>)"

section \<open>Example inputs\<close>

text \<open>A payload with nothing in it, the starting point of the examples.\<close>

definition emptyPayload :: payload where
  "emptyPayload =
     \<lparr>title = None, type' = None, flow = None, artistId = None, thumbnailIdx = None,
      samples = None, deadline = None, basePrice = None, cancelationFee = None,
      slots = None, revisions = None, milestones = None, generalOptions = None,
      subjectOptions = None\<rparr>"

text \<open>
  The example of the specification: base price 1000, one option group with selections
  priced 200 and 500, one addon priced 300.
\<close>

definition priceExample :: payload where
  "priceExample =
     emptyPayload\<lparr>
       basePrice := Some 1000,
       generalOptions := Some
         \<lparr>optionGroups = Some
            [\<lparr>id' = Some 1,
              selections = [\<lparr>id' = Some 1, label = ''sketch'', price = 200\<rparr>,
                            \<lparr>id' = Some 2, label = ''colour'', price = 500\<rparr>]\<rparr>],
          addons = Some [\<lparr>id' = Some 1, label = ''background'', price = 300\<rparr>],
          questions = None\<rparr>\<rparr>"

text \<open>A base price of \<open>2^53\<close> with one addon priced 1: their sum is not a double.\<close>

definition largePriceExample :: payload where
  "largePriceExample =
     emptyPayload\<lparr>
       basePrice := Some 9007199254740992,
       generalOptions := Some
         \<lparr>optionGroups = None,
          addons = Some [\<lparr>id' = Some 1, label = ''background'', price = 1\<rparr>],
          questions = None\<rparr>\<rparr>"

text \<open>A payload that has every required field and the standard flow.\<close>

definition standardPayload :: payload where
  "standardPayload =
     emptyPayload\<lparr>
       title := Some ''Portrait'', type' := Some ''template'', flow := Some ''standard'',
       artistId := Some ''artist1'', thumbnailIdx := Some 0, samples := Some [''sample1.png''],
       deadline := Some ''standard'', basePrice := Some 1000, cancelationFee := Some 10\<rparr>"

text \<open>Milestones with the given percentages and no ids yet.\<close>

definition milestonesOf :: "int list \<Rightarrow> milestone list" where
  "milestonesOf ps = map (\<lambda>n. \<lparr>id' = None, percent = n\<rparr>) ps"

text \<open>
  A payload in canonical form: every group, selection and addon has its id, and the one
  question is an object \<^verbatim>\<open>{id: 2, text: "Which colours?"}\<close>, as the normalizer itself
  writes questions (the listing's first question has been removed since).
\<close>

definition canonicalExample :: payload where
  "canonicalExample =
     priceExample\<lparr>
       generalOptions := Some
         \<lparr>optionGroups = Some
            [\<lparr>id' = Some 1,
              selections = [\<lparr>id' = Some 1, label = ''sketch'', price = 200\<rparr>,
                            \<lparr>id' = Some 2, label = ''colour'', price = 500\<rparr>]\<rparr>],
          addons = Some [\<lparr>id' = Some 1, label = ''background'', price = 300\<rparr>],
          questions = Some [QObject (Some 2) None None (Some ''Which colours?'')]\<rparr>\<rparr>"

text \<open>
  A listing of artist1 with a given deadline mode, a proposal of client1 on it with a given
  status, and a database that holds this proposal alone.
\<close>

definition listingWithMode :: "string \<Rightarrow> listing" where
  "listingWithMode m =
     \<lparr>listing_artistId = ''artist1'', isActive = True, isDeleted = False,
      listing_deadline = \<lparr>mode = m\<rparr>\<rparr>"

definition proposalWithStatus :: "string \<Rightarrow> proposal" where
  "proposalWithStatus s =
     \<lparr>clientId = ''client1'', proposal_artistId = ''artist1'', listingId = ''listing1'',
      status = s\<rparr>"

definition storeWithStatus :: "string \<Rightarrow> proposalStore" where
  "storeWithStatus s = Map.empty(''proposal1'' \<mapsto> proposalWithStatus s)"

text \<open>
  Repository functions for the examples in which the service answers before it reaches
  them: they refuse every call.
\<close>

definition refuseArtistResponds :: "proposalStore artistResponds_fn" where
  "refuseArtistResponds db proposalId accept adjustment reason =
     (Inl (Classified StateError), db)"

definition refuseClientRespondsToAdjustment :: "proposalStore clientRespondsToAdjustment_fn" where
  "refuseClientRespondsToAdjustment db proposalId accept cancelled =
     (Inl (Classified StateError), db)"


text \<open>
  The state for the examples of creating a proposal: the proposals of the database and the
  blobs in the object storage.
\<close>

record stores =
  proposals :: proposalStore
  objects :: "blob list"


text \<open>
  Collaborators for the examples of the form functions: one listing (with a given deadline
  mode), an artist without active contracts, a window from one to two weeks after the base
  date, an upload that stores each blob and names it after its content (and one that stores
  nothing), and a repository that stores a new proposal as \<^verbatim>\<open>pendingArtist\<close>.
\<close>

definition findListing :: "string \<Rightarrow> 'db findCommissionListingById_fn" where
  "findListing m db lid = (if lid = ''listing1'' then Some (listingWithMode m) else None)"

definition exampleLatestDeadline :: "'db getLatestActiveContractDeadline_fn" where
  "exampleLatestDeadline db artist = None"

fun addDays :: "int \<Rightarrow> date \<Rightarrow> date" where
  "addDays n (Date t) = Date (t + n * 86400000)"
| "addDays n InvalidDate = InvalidDate"

definition exampleEstimate :: computeDynamicEstimate_fn where
  "exampleEstimate l base = Inr (addDays 7 base, addDays 14 base)"

definition noUpload :: "'db uploadGalleryImagesToR2_fn" where
  "noUpload db blobs user kind = (Inr [], db)"



definition exampleUpdate :: "proposalStore updateProposal_fn" where
  "exampleUpdate db proposalId updates = (Inr (db proposalId), db)"

text \<open>The code units of an ASCII text.\<close>

definition codeUnits :: "string \<Rightarrow> jsString" where
  "codeUnits s = map of_char s"

text \<open>
  A form for listing1 with the deadline 2024-06-05, a description and the given reference
  images.
\<close>

definition exampleForm :: "blob list \<Rightarrow> formData" where
  "exampleForm blobs =
     \<lparr>form_payload = Absent, form_listingId = Some ''listing1'',
      form_deadline = Some (Date 1717545600000),
      form_generalDescription = Some (codeUnits ''A portrait''),
      form_referenceImages = blobs, form_existingReferences = []\<rparr>"


section \<open>Sums that are not rounded\<close>

lemma roundToDouble_exact: "\<bar>n\<bar> \<le> 9007199254740992 \<Longrightarrow> roundToDouble n = n"
  by (simp add: roundToDouble_def)

lemma jsAdd_exact: "\<bar>a + b\<bar> \<le> 9007199254740992 \<Longrightarrow> jsAdd a b = a + b"
  by (simp add: jsAdd_def roundToDouble_exact)

lemma sum_abs_nonneg: "0 \<le> (\<Sum>y\<leftarrow>xs. \<bar>f y :: int\<bar>)"
  by (induction xs) auto

lemma abs_member_le: "x \<in> set xs \<Longrightarrow> \<bar>f x :: int\<bar> \<le> (\<Sum>y\<leftarrow>xs. \<bar>f y\<bar>)"
proof (induction xs)
  case Nil
  then show ?case by simp
next
  case (Cons a xs)
  have "0 \<le> (\<Sum>y\<leftarrow>xs. \<bar>f y\<bar>)" by (rule sum_abs_nonneg)
  with Cons show ?case by auto
qed

lemma fold_jsAdd_exact:
  "\<bar>a\<bar> + (\<Sum>x\<leftarrow>xs. \<bar>f x\<bar>) \<le> 9007199254740992 \<Longrightarrow>
   fold (\<lambda>x acc. jsAdd acc (f x)) xs a = a + (\<Sum>x\<leftarrow>xs. f x)"
proof (induction xs arbitrary: a)
  case Nil
  then show ?case by simp
next
  case (Cons x xs)
  have nonneg: "0 \<le> (\<Sum>x\<leftarrow>xs. \<bar>f x\<bar>)" by (rule sum_abs_nonneg)
  from Cons.prems nonneg have "\<bar>a + f x\<bar> \<le> 9007199254740992" by simp
  then have step: "jsAdd a (f x) = a + f x" by (rule jsAdd_exact)
  from Cons.prems have "\<bar>a + f x\<bar> + (\<Sum>x\<leftarrow>xs. \<bar>f x\<bar>) \<le> 9007199254740992" by simp
  from Cons.IH[OF this] step show ?case by simp
qed

lemma sum_map_nonneg: "(\<And>x. 0 \<le> f x) \<Longrightarrow> 0 \<le> (\<Sum>x\<leftarrow>xs. f x :: int)"
  by (induction xs) auto

text \<open>
  Beyond \<open>2^53\<close> a sum is rounded: \<open>2^53 + 1\<close> lies halfway between two doubles and
  goes to the even one.
\<close>

lemma bitLength_bounds: "2 ^ k \<le> n \<Longrightarrow> n < 2 ^ Suc k \<Longrightarrow> bitLength n = Suc k"
proof (induction k arbitrary: n)
  case 0
  then have "n = 1" by simp
  then show ?case by (simp add: bitLength.simps)
next
  case (Suc k)
  from Suc.prems have "2 ^ k \<le> n div 2" "n div 2 < 2 ^ Suc k" by auto
  then have "bitLength (n div 2) = Suc k" by (rule Suc.IH)
  moreover from Suc.prems have "n \<noteq> 0" by auto
  ultimately show ?case by (simp add: bitLength.simps[of n])
qed

lemma roundToDouble_tie: "roundToDouble 9007199254740993 = 9007199254740992"
proof -
  have "bitLength 9007199254740993 = Suc 53"
    by (rule bitLength_bounds) simp_all
  then show ?thesis
    by (simp add: roundToDouble_def Let_def)
qed

section \<open>The price range\<close>

lemma absTotal_nonneg: "0 \<le> absTotal items"
  unfolding absTotal_def by (rule sum_abs_nonneg)

lemma abs_cheapest: "\<bar>cheapest items\<bar> \<le> absTotal items"
proof (cases "items = []")
  case True
  then show ?thesis by (simp add: cheapest_def absTotal_def)
next
  case False
  then have "Min (set (map price items)) \<in> set (map price items)"
    by (intro Min_in) auto
  then obtain x where "x \<in> set items" "Min (set (map price items)) = price x"
    by auto
  then show ?thesis
    using False abs_member_le[of x items price]
    by (simp add: cheapest_def absTotal_def)
qed

lemma abs_total: "\<bar>total items\<bar> \<le> absTotal items"
  unfolding total_def absTotal_def by (induction items) auto

lemma addPrices_exact:
  assumes "\<bar>mn\<bar> + absTotal (listOf xs) \<le> 9007199254740992"
    and "\<bar>mx\<bar> + absTotal (listOf xs) \<le> 9007199254740992"
  shows "addPrices xs (mn, mx) = (mn + cheapest (listOf xs), mx + total (listOf xs))"
proof (cases xs)
  case None
  then show ?thesis by (simp add: listOf_def cheapest_def total_def)
next
  case (Some items)
  show ?thesis
  proof (cases items)
    case Nil
    with Some show ?thesis by (simp add: listOf_def cheapest_def total_def)
  next
    case (Cons i rest)
    have l: "listOf xs = i # rest" using Some Cons by (simp add: listOf_def)
    have A1: "\<bar>mn\<bar> + absTotal (i # rest) \<le> 9007199254740992" using assms(1) l by simp
    have A2: "\<bar>mx\<bar> + absTotal (i # rest) \<le> 9007199254740992" using assms(2) l by simp
    have "Min (set (price i # map price rest)) = fold min (map price rest) (price i)"
      by (rule Min.set_eq_fold)
    then have m: "fold min (map price rest) (price i) = cheapest (i # rest)"
      by (simp add: cheapest_def)
    have "absTotal (i # rest) \<le> 9007199254740992"
      using A2 abs_ge_zero[of mx] by linarith
    then have "\<bar>0::int\<bar> + (\<Sum>x\<leftarrow>i # rest. \<bar>price x\<bar>) \<le> 9007199254740992"
      by (simp add: absTotal_def)
    from fold_jsAdd_exact[OF this]
    have s: "fold (\<lambda>x acc. jsAdd acc (price x)) (i # rest) 0 = total (i # rest)"
      by (simp add: total_def)
    have s': "fold (\<lambda>price sum. jsAdd sum price) (map price (i # rest)) 0 = total (i # rest)"
      using s by (simp add: fold_map comp_def)
    have a: "jsAdd mn (cheapest (i # rest)) = mn + cheapest (i # rest)"
      using A1 abs_cheapest[of "i # rest"] by (intro jsAdd_exact) linarith
    have b: "jsAdd mx (total (i # rest)) = mx + total (i # rest)"
      using A2 abs_total[of "i # rest"] by (intro jsAdd_exact) linarith
    show ?thesis
      using Some Cons l m s' a b by (simp del: fold_simps add: Let_def)
  qed
qed

lemma abs_sum_cheapest:
  "\<bar>\<Sum>g\<leftarrow>gs. cheapest (selections g)\<bar> \<le> (\<Sum>g\<leftarrow>gs. absTotal (selections g))"
proof (induction gs)
  case Nil
  then show ?case by simp
next
  case (Cons g gs)
  with abs_cheapest[of "selections g"] show ?case by simp
qed

lemma abs_sum_total:
  "\<bar>\<Sum>g\<leftarrow>gs. total (selections g)\<bar> \<le> (\<Sum>g\<leftarrow>gs. absTotal (selections g))"
proof (induction gs)
  case Nil
  then show ?case by simp
next
  case (Cons g gs)
  with abs_total[of "selections g"] show ?case by simp
qed

lemma fold_groups_exact:
  assumes "\<bar>mn\<bar> + (\<Sum>g\<leftarrow>gs. absTotal (selections g)) \<le> 9007199254740992"
    and "\<bar>mx\<bar> + (\<Sum>g\<leftarrow>gs. absTotal (selections g)) \<le> 9007199254740992"
  shows "fold (\<lambda>group. addPrices (Some (selections group))) gs (mn, mx) =
     (mn + (\<Sum>g\<leftarrow>gs. cheapest (selections g)), mx + (\<Sum>g\<leftarrow>gs. total (selections g)))"
  using assms
proof (induction gs arbitrary: mn mx)
  case Nil
  then show ?case by simp
next
  case (Cons g gs)
  let ?R = "\<Sum>g\<leftarrow>gs. absTotal (selections g)"
  have rest: "0 \<le> ?R" by (rule sum_map_nonneg) (rule absTotal_nonneg)
  have c: "\<bar>cheapest (selections g)\<bar> \<le> absTotal (selections g)" by (rule abs_cheapest)
  have t: "\<bar>total (selections g)\<bar> \<le> absTotal (selections g)" by (rule abs_total)
  from Cons.prems have p1: "\<bar>mn\<bar> + (absTotal (selections g) + ?R) \<le> 9007199254740992"
    and p2: "\<bar>mx\<bar> + (absTotal (selections g) + ?R) \<le> 9007199254740992" by simp_all
  have s1: "\<bar>mn\<bar> + absTotal (listOf (Some (selections g))) \<le> 9007199254740992"
    using p1 rest by (simp add: listOf_def)
  have s2: "\<bar>mx\<bar> + absTotal (listOf (Some (selections g))) \<le> 9007199254740992"
    using p2 rest by (simp add: listOf_def)
  have step: "addPrices (Some (selections g)) (mn, mx) =
                (mn + cheapest (selections g), mx + total (selections g))"
    using addPrices_exact[OF s1 s2] by (simp add: listOf_def)
  have b1: "\<bar>mn + cheapest (selections g)\<bar> + ?R \<le> 9007199254740992"
    using p1 c by linarith
  have b2: "\<bar>mx + total (selections g)\<bar> + ?R \<le> 9007199254740992"
    using p2 t by linarith
  from Cons.IH[OF b1 b2] step show ?case by simp
qed

lemma abs_subjectCheapest: "\<bar>subjectCheapest s\<bar> \<le> subjectMagnitude s"
  using abs_sum_cheapest[of "listOf (subject_optionGroups s)"]
    abs_cheapest[of "listOf (subject_addons s)"]
  by (simp add: subjectCheapest_def subjectMagnitude_def)

lemma abs_subjectTotal: "\<bar>subjectTotal s\<bar> \<le> subjectMagnitude s"
  using abs_sum_total[of "listOf (subject_optionGroups s)"]
    abs_total[of "listOf (subject_addons s)"]
  by (simp add: subjectTotal_def subjectMagnitude_def)

lemma subject_step_exact:
  assumes "\<bar>mn\<bar> + subjectMagnitude s \<le> 9007199254740992"
    and "\<bar>mx\<bar> + subjectMagnitude s \<le> 9007199254740992"
  shows "addPrices (subject_addons s)
      (case subject_optionGroups s of
         None \<Rightarrow> (mn, mx)
       | Some gs \<Rightarrow> fold (\<lambda>group. addPrices (Some (selections group))) gs (mn, mx)) =
   (mn + subjectCheapest s, mx + subjectTotal s)"
proof -
  let ?gs = "listOf (subject_optionGroups s)"
  let ?G = "\<Sum>g\<leftarrow>?gs. absTotal (selections g)"
  let ?A = "absTotal (listOf (subject_addons s))"
  have G0: "0 \<le> ?G" by (rule sum_map_nonneg) (rule absTotal_nonneg)
  have A0: "0 \<le> ?A" by (rule absTotal_nonneg)
  have m: "subjectMagnitude s = ?G + ?A" by (simp add: subjectMagnitude_def)
  have groups: "(case subject_optionGroups s of
         None \<Rightarrow> (mn, mx)
       | Some gs \<Rightarrow> fold (\<lambda>group. addPrices (Some (selections group))) gs (mn, mx)) =
      (mn + (\<Sum>g\<leftarrow>?gs. cheapest (selections g)), mx + (\<Sum>g\<leftarrow>?gs. total (selections g)))"
  proof (cases "subject_optionGroups s")
    case None
    then show ?thesis by (simp add: listOf_def)
  next
    case (Some gs)
    then have gs: "?gs = gs" by (simp add: listOf_def)
    have g1: "\<bar>mn\<bar> + ?G \<le> 9007199254740992" using assms(1) m A0 by linarith
    have g2: "\<bar>mx\<bar> + ?G \<le> 9007199254740992" using assms(2) m A0 by linarith
    from fold_groups_exact[OF g1 g2] Some gs show ?thesis by simp
  qed
  have "addPrices (subject_addons s)
          (mn + (\<Sum>g\<leftarrow>?gs. cheapest (selections g)), mx + (\<Sum>g\<leftarrow>?gs. total (selections g))) =
        (mn + (\<Sum>g\<leftarrow>?gs. cheapest (selections g)) + cheapest (listOf (subject_addons s)),
         mx + (\<Sum>g\<leftarrow>?gs. total (selections g)) + total (listOf (subject_addons s)))"
    using assms m abs_sum_cheapest[of ?gs] abs_sum_total[of ?gs]
    by (intro addPrices_exact) linarith+
  with groups show ?thesis by (simp add: subjectCheapest_def subjectTotal_def)
qed

lemma fold_subjects_exact:
  assumes "\<bar>mn\<bar> + (\<Sum>s\<leftarrow>ss. subjectMagnitude s) \<le> 9007199254740992"
    and "\<bar>mx\<bar> + (\<Sum>s\<leftarrow>ss. subjectMagnitude s) \<le> 9007199254740992"
  shows "fold (\<lambda>subject r. addPrices (subject_addons subject)
            (case subject_optionGroups subject of
               None \<Rightarrow> r
             | Some gs \<Rightarrow> fold (\<lambda>group. addPrices (Some (selections group))) gs r))
        ss (mn, mx) =
   (mn + (\<Sum>s\<leftarrow>ss. subjectCheapest s), mx + (\<Sum>s\<leftarrow>ss. subjectTotal s))"
  using assms
proof (induction ss arbitrary: mn mx)
  case Nil
  then show ?case by simp
next
  case (Cons s ss)
  let ?R = "\<Sum>s\<leftarrow>ss. subjectMagnitude s"
  have m0: "0 \<le> subjectMagnitude x" for x
    using abs_subjectTotal[of x] by linarith
  have rest: "0 \<le> ?R" by (rule sum_map_nonneg) (rule m0)
  from Cons.prems have p1: "\<bar>mn\<bar> + (subjectMagnitude s + ?R) \<le> 9007199254740992"
    and p2: "\<bar>mx\<bar> + (subjectMagnitude s + ?R) \<le> 9007199254740992" by simp_all
  have s1: "\<bar>mn\<bar> + subjectMagnitude s \<le> 9007199254740992" using p1 rest by linarith
  have s2: "\<bar>mx\<bar> + subjectMagnitude s \<le> 9007199254740992" using p2 rest by linarith
  note step = subject_step_exact[OF s1 s2]
  have b1: "\<bar>mn + subjectCheapest s\<bar> + ?R \<le> 9007199254740992"
    using p1 abs_subjectCheapest[of s] by linarith
  have b2: "\<bar>mx + subjectTotal s\<bar> + ?R \<le> 9007199254740992"
    using p2 abs_subjectTotal[of s] by linarith
  have "fold (\<lambda>subject r. addPrices (subject_addons subject)
            (case subject_optionGroups subject of
               None \<Rightarrow> r
             | Some gs \<Rightarrow> fold (\<lambda>group. addPrices (Some (selections group))) gs r))
        ss (mn + subjectCheapest s, mx + subjectTotal s) =
      (mn + subjectCheapest s + (\<Sum>s\<leftarrow>ss. subjectCheapest s),
       mx + subjectTotal s + (\<Sum>s\<leftarrow>ss. subjectTotal s))"
    by (rule Cons.IH[OF b1 b2])
  with step show ?case by simp
qed

text \<open>
  C1, as the code has it, for integer prices whose magnitude (the absolute values of the
  base price and of all selection and addon prices, summed) is at most \<open>2^53\<close>. The lower
  end of the price range is the base price plus the cheapest price of every non-empty list
  that \<open>addPrices\<close> sees: the selections of every option group and also every list of
  addons, general and per subject. The upper end is the base price plus all selection
  prices and all addon prices. An absent base price counts as 0.
\<close>

theorem computePriceRange_closed_form:
  assumes "priceMagnitude input \<le> 9007199254740992"
  shows "computePriceRange input =
     ((case basePrice input of Some b \<Rightarrow> b | None \<Rightarrow> 0)
        + (\<Sum>g\<leftarrow>generalGroups input. cheapest (selections g))
        + cheapest (generalAddons input)
        + (\<Sum>s\<leftarrow>listOf (subjectOptions input). subjectCheapest s),
      (case basePrice input of Some b \<Rightarrow> b | None \<Rightarrow> 0)
        + (\<Sum>g\<leftarrow>generalGroups input. total (selections g))
        + total (generalAddons input)
        + (\<Sum>s\<leftarrow>listOf (subjectOptions input). subjectTotal s))"
proof -
  define b where "b = (case basePrice input of Some b \<Rightarrow> b | None \<Rightarrow> 0)"
  let ?gs = "generalGroups input"
  let ?as = "generalAddons input"
  let ?ss = "listOf (subjectOptions input)"
  let ?G = "\<Sum>g\<leftarrow>?gs. absTotal (selections g)"
  let ?A = "absTotal ?as"
  let ?S = "\<Sum>s\<leftarrow>?ss. subjectMagnitude s"
  have G0: "0 \<le> ?G" by (rule sum_map_nonneg) (rule absTotal_nonneg)
  have A0: "0 \<le> ?A" by (rule absTotal_nonneg)
  have m0: "0 \<le> subjectMagnitude x" for x using abs_subjectTotal[of x] by linarith
  have S0: "0 \<le> ?S" by (rule sum_map_nonneg) (rule m0)
  from assms have bound: "\<bar>b\<bar> + ?G + ?A + ?S \<le> 9007199254740992"
    by (simp add: priceMagnitude_def b_def)
  have g: "\<bar>b\<bar> + ?G \<le> 9007199254740992" using bound A0 S0 by linarith
  have groups: "(case generalOptions input of
             None \<Rightarrow> (b, b)
           | Some general \<Rightarrow> (case optionGroups general of
                None \<Rightarrow> (b, b)
              | Some gs \<Rightarrow> fold (\<lambda>group. addPrices (Some (selections group))) gs (b, b))) =
        (b + (\<Sum>g\<leftarrow>?gs. cheapest (selections g)), b + (\<Sum>g\<leftarrow>?gs. total (selections g)))"
    using fold_groups_exact[OF g g]
    by (simp add: generalGroups_def listOf_def split: option.splits)
  have l: "listOf (case generalOptions input of None \<Rightarrow> None | Some general \<Rightarrow> addons general) = ?as"
    by (simp add: generalAddons_def listOf_def split: option.splits)
  have a1: "\<bar>b + (\<Sum>g\<leftarrow>?gs. cheapest (selections g))\<bar> + ?A \<le> 9007199254740992"
    using bound S0 abs_sum_cheapest[of ?gs] by linarith
  have a2: "\<bar>b + (\<Sum>g\<leftarrow>?gs. total (selections g))\<bar> + ?A \<le> 9007199254740992"
    using bound S0 abs_sum_total[of ?gs] by linarith
  have adds: "addPrices (case generalOptions input of None \<Rightarrow> None | Some general \<Rightarrow> addons general)
          (b + (\<Sum>g\<leftarrow>?gs. cheapest (selections g)), b + (\<Sum>g\<leftarrow>?gs. total (selections g))) =
        (b + (\<Sum>g\<leftarrow>?gs. cheapest (selections g)) + cheapest ?as,
         b + (\<Sum>g\<leftarrow>?gs. total (selections g)) + total ?as)"
    using addPrices_exact[of _ "case generalOptions input of None \<Rightarrow> None | Some general \<Rightarrow> addons general"]
      a1 a2 by (simp add: l)
  have s1: "\<bar>b + (\<Sum>g\<leftarrow>?gs. cheapest (selections g)) + cheapest ?as\<bar> + ?S \<le> 9007199254740992"
    using bound abs_sum_cheapest[of ?gs] abs_cheapest[of ?as] by linarith
  have s2: "\<bar>b + (\<Sum>g\<leftarrow>?gs. total (selections g)) + total ?as\<bar> + ?S \<le> 9007199254740992"
    using bound abs_sum_total[of ?gs] abs_total[of ?as] by linarith
  note subjects = fold_subjects_exact[OF s1 s2]
  show ?thesis
    unfolding computePriceRange_def Let_def b_def[symmetric]
    using subjects by (simp add: groups adds listOf_def split: option.splits)
qed

text \<open>
  The witness of C1: the example of the specification is within the bound, and its range
  is from 1000 + 200 + 300 to 1000 + 200 + 500 + 300.
\<close>

theorem computePriceRange_closed_form_witness:
  "priceMagnitude priceExample \<le> 9007199254740992 \<and>
   computePriceRange priceExample = (1000 + 200 + 300, 1000 + (200 + 500) + 300)"
proof -
  have m: "priceMagnitude priceExample \<le> 9007199254740992"
    by (simp add: priceMagnitude_def priceExample_def emptyPayload_def generalGroups_def
        generalAddons_def listOf_def absTotal_def)
  from computePriceRange_closed_form[OF m] m show ?thesis
    by (simp add: priceExample_def emptyPayload_def generalGroups_def generalAddons_def
        listOf_def cheapest_def total_def)
qed

text \<open>
  C1 as claimed fails on its own example: the addon priced 300 is the cheapest of its list
  and is added to the lower end, which is 1500 and not 1200. The upper end is 2000.
\<close>

theorem computePriceRange_example_counterexample:
  "computePriceRange priceExample = (1500, 2000) \<and>
   fst (computePriceRange priceExample) \<noteq> 1000 + 200"
  by (simp add: computePriceRange_def priceExample_def emptyPayload_def jsAdd_def
      roundToDouble_def)

text \<open>
  Outside the bound the sums are rounded as the doubles of the code are: a base price of
  \<open>2^53\<close> and an addon priced 1 give the range from \<open>2^53\<close> to \<open>2^53\<close>.
\<close>

lemma computePriceRange_rounds:
  "computePriceRange largePriceExample = (9007199254740992, 9007199254740992)"
  by (simp add: computePriceRange_def largePriceExample_def emptyPayload_def jsAdd_def
      roundToDouble_exact roundToDouble_tie)

section \<open>Normalization of canonical input\<close>

text \<open>
  C2. Normalization should leave a payload in canonical form as it is. The code does not:
  a question that already is an object \<^verbatim>\<open>{id, text}\<close> has neither a \<^verbatim>\<open>title\<close> nor a
  \<^verbatim>\<open>label\<close> key, so its id is replaced by its position and its text by the string form
  of the object. On the canonical example the question \<^verbatim>\<open>{id: 2, text: "Which
  colours?"}\<close> comes out as \<^verbatim>\<open>{id: 1, text: "[object Object]"}\<close>, while the groups,
  selections and addons keep their ids.
\<close>

theorem processPayloadWithIds_canonical_questions:
  "generalOptions (processPayloadWithIds canonicalExample) =
     Some \<lparr>optionGroups = Some
            [\<lparr>id' = Some 1,
              selections = [\<lparr>id' = Some 1, label = ''sketch'', price = 200\<rparr>,
                            \<lparr>id' = Some 2, label = ''colour'', price = 500\<rparr>]\<rparr>],
          addons = Some [\<lparr>id' = Some 1, label = ''background'', price = 300\<rparr>],
          questions = Some [QObject (Some 1) None None (Some ''[object Object]'')]\<rparr> \<and>
   processPayloadWithIds canonicalExample \<noteq> canonicalExample \<and>
   computePriceRange (processPayloadWithIds canonicalExample) = computePriceRange canonicalExample"
proof -
  have g: "generalOptions (processPayloadWithIds canonicalExample) =
     Some \<lparr>optionGroups = Some
            [\<lparr>id' = Some 1,
              selections = [\<lparr>id' = Some 1, label = ''sketch'', price = 200\<rparr>,
                            \<lparr>id' = Some 2, label = ''colour'', price = 500\<rparr>]\<rparr>],
          addons = Some [\<lparr>id' = Some 1, label = ''background'', price = 300\<rparr>],
          questions = Some [QObject (Some 1) None None (Some ''[object Object]'')]\<rparr>"
    by (simp add: processPayloadWithIds_def canonicalExample_def priceExample_def emptyPayload_def
        processGroups_def generateIds_def mapQuestions_def enumerate_eq_zip)
  have "generalOptions (processPayloadWithIds canonicalExample) \<noteq> generalOptions canonicalExample"
    unfolding g by (simp add: canonicalExample_def)
  then have ne: "processPayloadWithIds canonicalExample \<noteq> canonicalExample" by auto
  have "computePriceRange (processPayloadWithIds canonicalExample) = (1500, 2000)"
    by (simp add: computePriceRange_def processPayloadWithIds_def canonicalExample_def
        priceExample_def emptyPayload_def processGroups_def generateIds_def mapQuestions_def
        enumerate_eq_zip jsAdd_def roundToDouble_exact)
  moreover have "computePriceRange canonicalExample = (1500, 2000)"
    by (simp add: computePriceRange_def canonicalExample_def priceExample_def emptyPayload_def
        jsAdd_def roundToDouble_exact)
  ultimately have "computePriceRange (processPayloadWithIds canonicalExample) =
                   computePriceRange canonicalExample"
    by simp
  with g ne show ?thesis by simp
qed

section \<open>Listing validation\<close>

lemma milestoneSum_exact:
  "milestoneMagnitude ms \<le> 9007199254740992 \<Longrightarrow> milestoneSum ms = sum_list (map percent ms)"
  using fold_jsAdd_exact[of 0 percent ms]
  by (simp add: milestoneSum_def milestoneMagnitude_def)

lemma required_present:
  "find (fieldMissing p) requiredFields = None \<longleftrightarrow> (\<forall>f \<in> set requiredFields. \<not> fieldMissing p f)"
  by (auto simp: find_None_iff)

lemma fieldMissing_slots: "fieldMissing (p\<lparr>slots := s\<rparr>) = fieldMissing p"
  by (rule ext) (simp add: fieldMissing_def)

lemma milestone_error_iff:
  "validateListingPayload p = Inl (HttpError ''Milestone percentages must sum to 100%'' 400)
     \<longleftrightarrow> (\<forall>f \<in> set requiredFields. \<not> fieldMissing p f) \<and>
         (\<exists>ms. milestones p = Some ms \<and> ms \<noteq> [] \<and> milestoneSum ms \<noteq> 100)"
proof (cases "find (fieldMissing p) requiredFields")
  case None
  then show ?thesis
    using required_present[of p]
    by (cases "milestones p") (auto simp: validateListingPayload_def)
next
  case (Some f)
  then have "\<not> (\<forall>f \<in> set requiredFields. \<not> fieldMissing p f)"
    using required_present[of p] by simp
  with Some show ?thesis
    by (simp add: validateListingPayload_def)
qed

lemma milestone_sum_rejected:
  assumes "milestones p = Some ms" "ms \<noteq> []" "milestoneSum ms \<noteq> 100"
  shows "\<exists>e. validateListingPayload p = Inl e"
proof (cases "find (fieldMissing p) requiredFields")
  case None
  with assms show ?thesis by (auto simp: validateListingPayload_def)
next
  case (Some f)
  then show ?thesis by (simp add: validateListingPayload_def)
qed

text \<open>
  C8, as the code has it. A payload that carries a non-empty milestones array of integer
  percentages whose absolute values sum to at most \<open>2^53\<close>, and whose sum is not 100, is
  rejected. The error of this check, \<^verbatim>\<open>Milestone percentages must sum to 100%\<close>, is the
  outcome exactly when no required field is missing and the payload carries a non-empty
  milestones array whose sum, as the code adds it up, is not 100: a sum of 100 passes the
  check, and so does an empty array. Within the bound the code's sum is the exact sum.
\<close>

theorem validateListingPayload_milestone_sum:
  "(milestones p = Some ms \<and> ms \<noteq> [] \<and> milestoneMagnitude ms \<le> 9007199254740992 \<and>
    sum_list (map percent ms) \<noteq> 100 \<longrightarrow> (\<exists>e. validateListingPayload p = Inl e)) \<and>
   (validateListingPayload p = Inl (HttpError ''Milestone percentages must sum to 100%'' 400)
      \<longleftrightarrow> (\<forall>f \<in> set requiredFields. \<not> fieldMissing p f) \<and>
          (\<exists>ms. milestones p = Some ms \<and> ms \<noteq> [] \<and> milestoneSum ms \<noteq> 100)) \<and>
   (milestoneMagnitude ms \<le> 9007199254740992 \<longrightarrow> milestoneSum ms = sum_list (map percent ms))"
  using milestone_sum_rejected[of p ms] milestone_error_iff[of p] milestoneSum_exact[of ms]
  by auto

text \<open>
  The examples of C8: percentages 30, 30, 30 are rejected with the error of this check, and
  30, 30, 40 sum to 100 and are accepted.
\<close>

theorem validateListingPayload_milestone_sum_witness:
  "(\<exists>e. validateListingPayload (standardPayload\<lparr>milestones := Some (milestonesOf [30, 30, 30])\<rparr>) = Inl e) \<and>
   validateListingPayload (standardPayload\<lparr>milestones := Some (milestonesOf [30, 30, 30])\<rparr>) =
     Inl (HttpError ''Milestone percentages must sum to 100%'' 400) \<and>
   milestoneSum (milestonesOf [30, 30, 40]) = 100 \<and>
   validateListingPayload (standardPayload\<lparr>milestones := Some (milestonesOf [30, 30, 40])\<rparr>) = Inr ()"
proof -
  let ?bad = "standardPayload\<lparr>milestones := Some (milestonesOf [30, 30, 30])\<rparr>"
  have present: "\<forall>f \<in> set requiredFields. \<not> fieldMissing ?bad f"
    by (simp add: requiredFields_def fieldMissing_def standardPayload_def emptyPayload_def)
  have bad: "milestones ?bad = Some (milestonesOf [30, 30, 30]) \<and> milestonesOf [30, 30, 30] \<noteq> [] \<and>
             milestoneMagnitude (milestonesOf [30, 30, 30]) \<le> 9007199254740992 \<and>
             sum_list (map percent (milestonesOf [30, 30, 30])) \<noteq> 100"
    by (simp add: milestonesOf_def milestoneMagnitude_def)
  note t = validateListingPayload_milestone_sum[of ?bad "milestonesOf [30, 30, 30]"]
  from t bad have rejected: "\<exists>e. validateListingPayload ?bad = Inl e"
    by blast
  from t bad have "milestoneSum (milestonesOf [30, 30, 30]) \<noteq> 100" by simp
  with t bad present
  have message: "validateListingPayload ?bad = Inl (HttpError ''Milestone percentages must sum to 100%'' 400)"
    by blast
  have good: "milestoneMagnitude (milestonesOf [30, 30, 40]) \<le> 9007199254740992"
    by (simp add: milestonesOf_def milestoneMagnitude_def)
  with validateListingPayload_milestone_sum[of ?bad "milestonesOf [30, 30, 40]"]
  have sum: "milestoneSum (milestonesOf [30, 30, 40]) = 100"
    by (simp add: milestonesOf_def)
  have "validateListingPayload (standardPayload\<lparr>milestones := Some (milestonesOf [30, 30, 40])\<rparr>) = Inr ()"
    using sum
    by (simp add: validateListingPayload_def standardPayload_def emptyPayload_def
        requiredFields_def fieldMissing_def milestonesOf_def)
  with rejected message sum show ?thesis by simp
qed

text \<open>
  C8 as claimed fails for an empty milestones array, which the check skips
  (\<^verbatim>\<open>payload.milestones.length > 0\<close>): its percentages sum to 0, and with the standard
  flow the payload is accepted.
\<close>

theorem validateListingPayload_empty_milestones_counterexample:
  "milestoneSum (the (milestones (standardPayload\<lparr>milestones := Some []\<rparr>))) \<noteq> 100 \<and>
   validateListingPayload (standardPayload\<lparr>milestones := Some []\<rparr>) = Inr ()"
  by (simp add: validateListingPayload_def standardPayload_def emptyPayload_def
        requiredFields_def fieldMissing_def milestoneSum_def)

text \<open>
  Outside the bound the code's sum is rounded: the percentages \<open>2^53\<close>, 1, \<open>-2^53\<close>, 100
  have the exact sum 101 and are added up to 100.
\<close>

lemma milestoneSum_rounds:
  "milestoneSum (milestonesOf [9007199254740992, 1, - 9007199254740992, 100]) = 100"
  by (simp add: milestoneSum_def milestonesOf_def jsAdd_def roundToDouble_exact
      roundToDouble_tie)

text \<open>
  C9, as the code has it. The slots value that validation rejects is 0: a payload with 0
  slots never passes, and \<^verbatim>\<open>Slots cannot be 0\<close> is the outcome exactly when the slots are
  0 and the payload is otherwise valid. A negative slots value is treated like an absent
  one.
\<close>

theorem validateListingPayload_slots:
  "(slots p = Some 0 \<longrightarrow> (\<exists>e. validateListingPayload p = Inl e)) \<and>
   (validateListingPayload p = Inl (HttpError ''Slots cannot be 0'' 400)
      \<longleftrightarrow> slots p = Some 0 \<and> validateListingPayload (p\<lparr>slots := None\<rparr>) = Inr ()) \<and>
   (\<forall>n. n < 0 \<longrightarrow> slots p = Some n \<longrightarrow>
      validateListingPayload p = validateListingPayload (p\<lparr>slots := None\<rparr>))"
proof (cases "find (fieldMissing p) requiredFields")
  case None
  then show ?thesis
    by (auto simp: validateListingPayload_def fieldMissing_slots split: option.splits)
next
  case (Some f)
  then show ?thesis
    by (simp add: validateListingPayload_def fieldMissing_slots)
qed

text \<open>
  The witness of C9: 0 slots are rejected, and -1 slots validate as no slots do.
\<close>

theorem validateListingPayload_slots_witness:
  "(\<exists>e. validateListingPayload (standardPayload\<lparr>slots := Some 0\<rparr>) = Inl e) \<and>
   validateListingPayload (standardPayload\<lparr>slots := Some (-1)\<rparr>) = validateListingPayload standardPayload"
proof -
  have "slots (standardPayload\<lparr>slots := Some 0\<rparr>) = Some 0" by simp
  moreover have "(-1::int) < 0" "slots (standardPayload\<lparr>slots := Some (-1)\<rparr>) = Some (-1)" by simp_all
  ultimately show ?thesis
    using validateListingPayload_slots[of "standardPayload\<lparr>slots := Some 0\<rparr>"]
      validateListingPayload_slots[of "standardPayload\<lparr>slots := Some (-1)\<rparr>"]
    by (simp add: standardPayload_def emptyPayload_def)
qed

text \<open>
  C9 as claimed fails: an otherwise valid payload with -1 slots passes validation.
\<close>

theorem validateListingPayload_negative_slots_counterexample:
  "validateListingPayload (standardPayload\<lparr>slots := Some (-1)\<rparr>) = Inr ()"
  by (simp add: validateListingPayload_def standardPayload_def emptyPayload_def
        requiredFields_def fieldMissing_def)

section \<open>Creating a proposal\<close>



section \<open>The deadline validator\<close>




section \<open>The proposal state machine\<close>

text \<open>
  The two branches of the artist's response on a proposal of the artist. Accepting is
  guarded by the status. Rejecting with a reason is not: whatever the status, the call goes
  to the repository's \<open>artistResponds\<close>.
\<close>

lemma artistRespond_accept_guarded:
  "getProposalById db pid = Some p \<Longrightarrow> proposal_artistId p = artist \<Longrightarrow> acceptProposal d \<Longrightarrow>
   status p \<noteq> ''pendingArtist'' \<Longrightarrow> status p \<noteq> ''rejectedClient'' \<Longrightarrow>
   artistRespond getProposalById artistResponds now db artist pid d =
     (Inl (Error ''Proposal is not awaiting artist response''), db)"
  by (simp add: artistRespond_def)

lemma artistRespond_reject_passed_on:
  "getProposalById db pid = Some p \<Longrightarrow> proposal_artistId p = artist \<Longrightarrow> \<not> acceptProposal d \<Longrightarrow>
   rejectionReason d = Some reason \<Longrightarrow> reason \<noteq> [] \<Longrightarrow>
   artistRespond getProposalById artistResponds now db artist pid d =
     artistResponds db pid False None (Some reason)"
  by (simp add: artistRespond_def)


text \<open>
  C5, as the code has it. Editing a proposal and the client's response throw a
  \<^verbatim>\<open>Not authorized\<close> error when the actor is not the client of the proposal, the artist's
  response throws one when the actor is not its artist, and the state stays as it was.
  \<open>finalizeProposal\<close> has no actor: on an accepted proposal it is the repository's
  \<open>finalizeAcceptance\<close>, whoever calls.
\<close>

theorem identity_checks:
  "(getProposalById db pid = Some p \<and> clientId p \<noteq> user \<longrightarrow>
      updateProposalFromForm getProposalById findCommissionListingById
          getLatestActiveContractDeadline repoComputeDynamicEstimate uploadGalleryImagesToR2
          repoUpdateProposal now db pid user form =
        (Inl (HttpError ''Not authorized to edit this proposal'' 403), db)) \<and>
   (getProposalById db pid = Some p \<and> proposal_artistId p \<noteq> user \<longrightarrow>
      artistRespond getProposalById artistResponds now db user pid ad =
        (Inl (Error ''Not authorized to respond to this proposal''), db)) \<and>
   (getProposalById db pid = Some p \<and> clientId p \<noteq> user \<longrightarrow>
      clientRespond getProposalById cancelProposal clientRespondsToAdjustment db user pid cd =
        (Inl (Error ''Not authorized to respond to this proposal''), db)) \<and>
   (getProposalById db pid = Some p \<and> status p = ''accepted'' \<longrightarrow>
      finalizeProposal getProposalById finalizeAcceptance db pid = finalizeAcceptance db pid)"
  by (simp add: updateProposalFromForm_def artistRespond_def clientRespond_def finalizeProposal_def)

text \<open>
  The witness of C5: client2 and artist2 are refused on the proposal of client1 and
  artist1.
\<close>

theorem identity_checks_witness:
  "updateProposalFromForm repo_getProposalById (findListing ''withRush'') exampleLatestDeadline
       exampleEstimate noUpload exampleUpdate (Date 1716595200000)
       (storeWithStatus ''pendingArtist'') ''proposal1'' ''client2'' (exampleForm []) =
     (Inl (HttpError ''Not authorized to edit this proposal'' 403), storeWithStatus ''pendingArtist'') \<and>
   artistRespond repo_getProposalById refuseArtistResponds (Date 1716595200000)
       (storeWithStatus ''pendingArtist'') ''artist2'' ''proposal1''
       \<lparr>acceptProposal = True, surcharge = None, discount = None, rejectionReason = None\<rparr> =
     (Inl (Error ''Not authorized to respond to this proposal''), storeWithStatus ''pendingArtist'') \<and>
   clientRespond repo_getProposalById repo_cancelProposal refuseClientRespondsToAdjustment
       (storeWithStatus ''pendingArtist'') ''client2'' ''proposal1''
       \<lparr>cancel = Some True, acceptAdjustments = None\<rparr> =
     (Inl (Error ''Not authorized to respond to this proposal''), storeWithStatus ''pendingArtist'') \<and>
   finalizeProposal repo_getProposalById repo_finalizeAcceptance (storeWithStatus ''accepted'')
       ''proposal1'' =
     repo_finalizeAcceptance (storeWithStatus ''accepted'') ''proposal1''"
proof -
  have stored: "repo_getProposalById (storeWithStatus s) ''proposal1'' = Some (proposalWithStatus s)" for s
    by (simp add: repo_getProposalById_def storeWithStatus_def)
  have who: "clientId (proposalWithStatus s) \<noteq> ''client2'' \<and>
             proposal_artistId (proposalWithStatus s) \<noteq> ''artist2'' \<and>
             status (proposalWithStatus s) = s" for s
    by (simp add: proposalWithStatus_def)
  show ?thesis
    using stored who
      identity_checks[of repo_getProposalById "storeWithStatus ''pendingArtist''" "''proposal1''"
        "proposalWithStatus ''pendingArtist''" "''client2''" "findListing ''withRush''"
        exampleLatestDeadline exampleEstimate noUpload exampleUpdate "Date 1716595200000"
        "exampleForm []"]
      identity_checks[of repo_getProposalById "storeWithStatus ''pendingArtist''" "''proposal1''"
        "proposalWithStatus ''pendingArtist''" "''artist2''" _ _ _ _ _ "Date 1716595200000" _
        refuseArtistResponds
        "\<lparr>acceptProposal = True, surcharge = None, discount = None, rejectionReason = None\<rparr>"]
      identity_checks[of repo_getProposalById "storeWithStatus ''pendingArtist''" "''proposal1''"
        "proposalWithStatus ''pendingArtist''" "''client2''" _ _ _ _ _ _ _ _ _
        repo_cancelProposal refuseClientRespondsToAdjustment
        "\<lparr>cancel = Some True, acceptAdjustments = None\<rparr>"]
      identity_checks[of repo_getProposalById "storeWithStatus ''accepted''" "''proposal1''"
        "proposalWithStatus ''accepted''" _ _ _ _ _ _ _ _ _ _ _ _ _ repo_finalizeAcceptance]
    by simp
qed

text \<open>
  C5 as claimed fails for finalizing: no identity is checked, and the accepted proposal of
  the example is finalized without any actor being named.
\<close>

theorem finalizeProposal_unguarded_counterexample:
  "finalizeProposal repo_getProposalById repo_finalizeAcceptance (storeWithStatus ''accepted'')
       ''proposal1'' =
     (Inr (proposalWithStatus ''finalized''),
      (storeWithStatus ''accepted'')(''proposal1'' \<mapsto> proposalWithStatus ''finalized''))"
  by (simp add: finalizeProposal_def repo_getProposalById_def repo_finalizeAcceptance_def
      storeWithStatus_def proposalWithStatus_def)

text \<open>
  C6. When the decision of the owning client says cancel, \<open>clientRespond\<close> is the
  repository's \<open>cancelProposal\<close>, whatever the status: the cancel branch comes before the
  test for \<^verbatim>\<open>pendingClient\<close>. With the repository of the specification, cancelling a
  proposal that is \<^verbatim>\<open>pendingArtist\<close>, \<^verbatim>\<open>pendingClient\<close>, \<^verbatim>\<open>rejectedClient\<close> or
  \<^verbatim>\<open>accepted\<close> succeeds and stores it as \<^verbatim>\<open>cancelled\<close>.
\<close>

theorem clientRespond_cancel:
  "cancel d = Some True \<longrightarrow>
     (getProposalById db pid = Some p \<and> clientId p = client \<longrightarrow>
        clientRespond getProposalById cancelProposal clientRespondsToAdjustment db client pid d =
          cancelProposal db pid client) \<and>
     (store pid = Some q \<and> clientId q = client \<and>
      status q \<in> {''pendingArtist'', ''pendingClient'', ''rejectedClient'', ''accepted''} \<longrightarrow>
        clientRespond repo_getProposalById repo_cancelProposal respondsToAdjustment store client pid d =
          (Inr (q\<lparr>status := ''cancelled''\<rparr>), store(pid \<mapsto> q\<lparr>status := ''cancelled''\<rparr>)))"
  by (auto simp: clientRespond_def repo_getProposalById_def repo_cancelProposal_def terminalStatuses_def)

text \<open>The witness of C6: cancelling from each of the four non-terminal states.\<close>

theorem clientRespond_cancel_witness:
  "clientRespond repo_getProposalById repo_cancelProposal refuseClientRespondsToAdjustment
       (storeWithStatus ''pendingArtist'') ''client1'' ''proposal1''
       \<lparr>cancel = Some True, acceptAdjustments = None\<rparr> =
     (Inr (proposalWithStatus ''cancelled''),
      (storeWithStatus ''pendingArtist'')(''proposal1'' \<mapsto> proposalWithStatus ''cancelled'')) \<and>
   clientRespond repo_getProposalById repo_cancelProposal refuseClientRespondsToAdjustment
       (storeWithStatus ''pendingClient'') ''client1'' ''proposal1''
       \<lparr>cancel = Some True, acceptAdjustments = None\<rparr> =
     (Inr (proposalWithStatus ''cancelled''),
      (storeWithStatus ''pendingClient'')(''proposal1'' \<mapsto> proposalWithStatus ''cancelled'')) \<and>
   clientRespond repo_getProposalById repo_cancelProposal refuseClientRespondsToAdjustment
       (storeWithStatus ''rejectedClient'') ''client1'' ''proposal1''
       \<lparr>cancel = Some True, acceptAdjustments = None\<rparr> =
     (Inr (proposalWithStatus ''cancelled''),
      (storeWithStatus ''rejectedClient'')(''proposal1'' \<mapsto> proposalWithStatus ''cancelled'')) \<and>
   clientRespond repo_getProposalById repo_cancelProposal refuseClientRespondsToAdjustment
       (storeWithStatus ''accepted'') ''client1'' ''proposal1''
       \<lparr>cancel = Some True, acceptAdjustments = None\<rparr> =
     (Inr (proposalWithStatus ''cancelled''),
      (storeWithStatus ''accepted'')(''proposal1'' \<mapsto> proposalWithStatus ''cancelled''))"
proof -
  have stored: "storeWithStatus s ''proposal1'' = Some (proposalWithStatus s)" for s
    by (simp add: storeWithStatus_def)
  have who: "clientId (proposalWithStatus s) = ''client1'' \<and> status (proposalWithStatus s) = s \<and>
             (proposalWithStatus s)\<lparr>status := ''cancelled''\<rparr> = proposalWithStatus ''cancelled''" for s
    by (simp add: proposalWithStatus_def)
  have c: "cancel \<lparr>cancel = Some True, acceptAdjustments = None\<rparr> = Some True" by simp
  note w = clientRespond_cancel[of "\<lparr>cancel = Some True, acceptAdjustments = None\<rparr>"
      repo_getProposalById _ "''proposal1''" _ "''client1''" repo_cancelProposal
      refuseClientRespondsToAdjustment _ _ refuseClientRespondsToAdjustment]
  show ?thesis
    using c stored who
      w[of "storeWithStatus ''pendingArtist''" "proposalWithStatus ''pendingArtist''"
           "storeWithStatus ''pendingArtist''" "proposalWithStatus ''pendingArtist''"]
      w[of "storeWithStatus ''pendingClient''" "proposalWithStatus ''pendingClient''"
           "storeWithStatus ''pendingClient''" "proposalWithStatus ''pendingClient''"]
      w[of "storeWithStatus ''rejectedClient''" "proposalWithStatus ''rejectedClient''"
           "storeWithStatus ''rejectedClient''" "proposalWithStatus ''rejectedClient''"]
      w[of "storeWithStatus ''accepted''" "proposalWithStatus ''accepted''"
           "storeWithStatus ''accepted''" "proposalWithStatus ''accepted''"]
    by simp
qed

section \<open>Validation of a proposal\<close>






end
